theory Spec2Isabelle
  imports Main
begin

section \<open>JavaScript calls, promises and the Effect runtime\<close>

text \<open>
  The adapter of \<^verbatim>\<open>src/index.ts\<close> is glue between two libraries, so the embedding
  has three layers: what a JavaScript call can do, what the Effect constructors the
  adapter uses do with a thunk, and the four adapter functions themselves.

  A JavaScript call runs in a world \<open>'w\<close> (everything the call may read or change), and
  either throws a value of type \<open>'x\<close> (\<open>Inl\<close>) or returns (\<open>Inr\<close>). An arrow function
  without parameters, \<^verbatim>\<open>() => e\<close>, is the call \<open>e\<close> itself, not yet applied to a world.
\<close>

type_synonym ('w, 'x, 'a) js = "'w \<Rightarrow> ('x + 'a) \<times> 'w"

definition js_return :: "'a \<Rightarrow> ('w, 'x, 'a) js" where
  "js_return a = (\<lambda>w. (Inr a, w))"

definition js_bind :: "('w, 'x, 'a) js \<Rightarrow> ('a \<Rightarrow> ('w, 'x, 'b) js) \<Rightarrow> ('w, 'x, 'b) js" where
  "js_bind m k = (\<lambda>w. case m w of
       (Inr a, w') \<Rightarrow> k a w'
     | (Inl thrown, w') \<Rightarrow> (Inl thrown, w'))"

text \<open>
  A promise, seen from the one place that awaits it: it resolves with a value, rejects
  with a reason, or never settles. The world a promise-returning call hands back is the
  world at the moment the promise has settled.
\<close>

datatype ('x, 'a) promise = Resolved 'a | Rejected 'x | Pending

text \<open>
  What the runtime reports when it has executed a computation: success, a failure in the
  typed error channel, a defect (an untyped death of the fiber), or no result at all.
\<close>

datatype ('a, 'e, 'x) exit = Success 'a | Failure 'e | Defect 'x | Never

text \<open>
  A computation value \<^verbatim>\<open>Effect<A, E, never>\<close> is what the runtime does with a world
  when it executes the value; building one executes nothing.
\<close>

datatype ('w, 'x, 'e, 'a) effect = Effect (run: "'w \<Rightarrow> ('a, 'e, 'x) exit \<times> 'w")

text \<open>
  The constructors of the Effect library that the adapter calls. The library is not part
  of the repository; these follow its contract: \<^verbatim>\<open>Effect.try\<close> and
  \<^verbatim>\<open>Effect.tryPromise\<close> map whatever the thunk throws, or the promise rejects with,
  through \<^verbatim>\<open>catch\<close> into the error channel; \<^verbatim>\<open>Effect.promise\<close> has no error
  mapping, so a rejection is a defect; a thunk of \<^verbatim>\<open>Effect.suspend\<close> that throws is a
  defect; \<^verbatim>\<open>Effect.flatMap\<close> continues on success only.
\<close>

definition Effect_succeed :: "'a \<Rightarrow> ('w, 'x, 'e, 'a) effect" where
  "Effect_succeed a = Effect (\<lambda>w. (Success a, w))"

definition Effect_fail :: "'e \<Rightarrow> ('w, 'x, 'e, 'a) effect" where
  "Effect_fail e = Effect (\<lambda>w. (Failure e, w))"

definition Effect_try :: "('w, 'x, 'a) js \<Rightarrow> ('x \<Rightarrow> 'e) \<Rightarrow> ('w, 'x, 'e, 'a) effect" where
  "Effect_try thunk catch = Effect (\<lambda>w. case thunk w of
       (Inr a, w') \<Rightarrow> (Success a, w')
     | (Inl thrown, w') \<Rightarrow> (Failure (catch thrown), w'))"

definition Effect_tryPromise ::
  "('w, 'x, ('x, 'a) promise) js \<Rightarrow> ('x \<Rightarrow> 'e) \<Rightarrow> ('w, 'x, 'e, 'a) effect" where
  "Effect_tryPromise thunk catch = Effect (\<lambda>w. case thunk w of
       (Inr (Resolved a), w') \<Rightarrow> (Success a, w')
     | (Inr (Rejected reason), w') \<Rightarrow> (Failure (catch reason), w')
     | (Inr Pending, w') \<Rightarrow> (Never, w')
     | (Inl thrown, w') \<Rightarrow> (Failure (catch thrown), w'))"

definition Effect_promise :: "('w, 'x, ('x, 'a) promise) js \<Rightarrow> ('w, 'x, 'e, 'a) effect" where
  "Effect_promise thunk = Effect (\<lambda>w. case thunk w of
       (Inr (Resolved a), w') \<Rightarrow> (Success a, w')
     | (Inr (Rejected reason), w') \<Rightarrow> (Defect reason, w')
     | (Inr Pending, w') \<Rightarrow> (Never, w')
     | (Inl thrown, w') \<Rightarrow> (Defect thrown, w'))"

definition Effect_suspend :: "('w, 'x, ('w, 'x, 'e, 'a) effect) js \<Rightarrow> ('w, 'x, 'e, 'a) effect" where
  "Effect_suspend thunk = Effect (\<lambda>w. case thunk w of
       (Inr eff, w') \<Rightarrow> run eff w'
     | (Inl thrown, w') \<Rightarrow> (Defect thrown, w'))"

definition Effect_flatMap ::
  "('w, 'x, 'e, 'a) effect \<Rightarrow> ('a \<Rightarrow> ('w, 'x, 'e, 'b) effect) \<Rightarrow> ('w, 'x, 'e, 'b) effect" where
  "Effect_flatMap self f = Effect (\<lambda>w. case run self w of
       (Success a, w') \<Rightarrow> run (f a) w'
     | (Failure e, w') \<Rightarrow> (Failure e, w')
     | (Defect thrown, w') \<Rightarrow> (Defect thrown, w')
     | (Never, w') \<Rightarrow> (Never, w'))"

section \<open>The Validator\<close>

text \<open>
  The result object of the Validator's non-throwing parse. The adapter reads three of its
  properties; \<^verbatim>\<open>issues\<close> is \<^verbatim>\<open>undefined\<close> (\<open>None\<close>) on a successful result.
\<close>

record ('o, 'iss) SafeParseResult =
  success :: bool
  "output" :: 'o
  issues :: "'iss list option"

text \<open>
  The five functions of the Validator (valibot) that the adapter calls, taken as a
  parameter: the library is not part of the repository. Schemas, inputs, configs, outputs,
  issues and thrown values are opaque to the adapter, so they are type variables;
  \<^verbatim>\<open>config?\<close> is an optional argument.
\<close>

record ('w, 's, 'i, 'c, 'o, 'iss, 'x) validator =
  v_parse :: "'s \<Rightarrow> 'i \<Rightarrow> 'c option \<Rightarrow> ('w, 'x, 'o) js"
  v_parseAsync :: "'s \<Rightarrow> 'i \<Rightarrow> 'c option \<Rightarrow> ('w, 'x, ('x, 'o) promise) js"
  v_safeParse :: "'s \<Rightarrow> 'i \<Rightarrow> 'c option \<Rightarrow> ('w, 'x, ('o, 'iss) SafeParseResult) js"
  v_safeParseAsync ::
    "'s \<Rightarrow> 'i \<Rightarrow> 'c option \<Rightarrow> ('w, 'x, ('x, ('o, 'iss) SafeParseResult) promise) js"
  v_isValiError :: "'x \<Rightarrow> bool"

text \<open>
  Modelled from the spec: the bodies of the Validator's entry points, which are not part
  of the repository. The spec describes the Validator as one validation ("given a schema
  value and an input, produces either a successful typed output or a non-empty ordered
  sequence of typed issues") that it offers in a throwing form ("throwing
  \<^verbatim>\<open>ValidatorError\<close> on failure") and in a non-throwing form (returning
  \<^verbatim>\<open>{ success: true, output } | { success: false, issues }\<close>). A validation hands
  back a dataset: the value it reached and, when the input failed, the issues. The
  throwing form throws the Validator's error built from the issues when there are any and
  returns the value otherwise; the non-throwing form reports the same dataset as a result
  object, with the success flag set when there are no issues. A value thrown inside the
  validation (by a custom check, say) leaves both forms as it is.
\<close>

record ('o, 'iss) dataset =
  dataset_value :: 'o
  dataset_issues :: "'iss list option"

definition js_throw :: "'x \<Rightarrow> ('w, 'x, 'a) js" where
  "js_throw thrown = (\<lambda>w. (Inl thrown, w))"

text \<open>
  Modelled from the spec: the Validator's throwing parse, \<^verbatim>\<open>v.parse\<close>, as the throwing
  form of a validation.
\<close>

definition throwing_form ::
  "('iss list \<Rightarrow> 'x) \<Rightarrow> ('w, 'x, ('o, 'iss) dataset) js \<Rightarrow> ('w, 'x, 'o) js" where
  "throwing_form new_error validation = js_bind validation (\<lambda>d.
     case dataset_issues d of
       Some found \<Rightarrow> js_throw (new_error found)
     | None \<Rightarrow> js_return (dataset_value d))"

text \<open>
  Modelled from the spec: the Validator's non-throwing parse, \<^verbatim>\<open>v.safeParse\<close>, as the
  non-throwing form of a validation.
\<close>

definition safe_form ::
  "('w, 'x, ('o, 'iss) dataset) js \<Rightarrow> ('w, 'x, ('o, 'iss) SafeParseResult) js" where
  "safe_form validation = js_bind validation (\<lambda>d.
     js_return \<lparr>success = (dataset_issues d = None), output = dataset_value d,
       issues = dataset_issues d\<rparr>)"

text \<open>
  A Validator whose synchronous entry points are the two forms of the validation
  \<open>validation\<close>; its other entry points are those of \<open>V\<close>, whatever they are.
\<close>

definition with_synchronous_forms ::
  "('iss list \<Rightarrow> 'x) \<Rightarrow> ('s \<Rightarrow> 'i \<Rightarrow> 'c option \<Rightarrow> ('w, 'x, ('o, 'iss) dataset) js)
     \<Rightarrow> ('w, 's, 'i, 'c, 'o, 'iss, 'x) validator \<Rightarrow> ('w, 's, 'i, 'c, 'o, 'iss, 'x) validator" where
  "with_synchronous_forms new_error validation V = V\<lparr>
     v_parse := (\<lambda>schema input config. throwing_form new_error (validation schema input config)),
     v_safeParse := (\<lambda>schema input config. safe_form (validation schema input config))\<rparr>"

section \<open>The adapter: \<^verbatim>\<open>src/index.ts\<close>\<close>

text \<open>
  \<^verbatim>\<open>class ValiError extends Data.TaggedError("ValiError")<{ cause: ... }>\<close>: an object
  with the fixed discriminant \<^verbatim>\<open>_tag\<close> and the one field \<^verbatim>\<open>cause\<close>.
\<close>

record 'x ValiError =
  tag :: string
  cause :: 'x

definition new_ValiError :: "'x \<Rightarrow> 'x ValiError" where
  "new_ValiError c = \<lparr>tag = ''ValiError'', cause = c\<rparr>"

text \<open>
  Each adapter function is a JavaScript function whose body is one \<^verbatim>\<open>return\<close> of an
  Effect constructor applied to arrow functions:
  \<^verbatim>\<open>
  parse:          return Effect.try({
                    try: () => v.parse(schema, input, config),
                    catch: (cause) =>
                      new ValiError({ cause: v.isValiError(cause) ? cause : (cause as any) }),
                  });
  parseAsync:     return Effect.tryPromise({
                    try: () => v.safeParseAsync(schema, input, config),
                    catch: (cause) =>
                      new ValiError({ cause: v.isValiError(cause) ? cause : (cause as any) }),
                  });
  safeParse:      return Effect.suspend(() => {
                    const result = v.safeParse(schema, input, config);
                    return result.success
                      ? Effect.succeed(result.output)
                      : Effect.fail(result.issues);
                  });
  safeParseAsync: return Effect.flatMap(
                    Effect.promise(() => v.safeParseAsync(schema, input, config)),
                    (result) =>
                      result.success
                        ? Effect.succeed(result.output)
                        : Effect.fail(result.issues),
                  );
  \<close>
  The success type of each computation is the type of the value it succeeds with when it
  runs: for \<^verbatim>\<open>parseAsync\<close> that is the result object of \<^verbatim>\<open>v.safeParseAsync\<close>.
\<close>

definition parse ::
  "('w, 's, 'i, 'c, 'o, 'iss, 'x) validator \<Rightarrow> 's \<Rightarrow> 'i \<Rightarrow> 'c option
     \<Rightarrow> ('w, 'x, ('w, 'x, 'x ValiError, 'o) effect) js" where
  "parse V schema input config =
     js_return (Effect_try
       (v_parse V schema input config)
       (\<lambda>cause. new_ValiError (if v_isValiError V cause then cause else cause)))"

definition parseAsync ::
  "('w, 's, 'i, 'c, 'o, 'iss, 'x) validator \<Rightarrow> 's \<Rightarrow> 'i \<Rightarrow> 'c option
     \<Rightarrow> ('w, 'x, ('w, 'x, 'x ValiError, ('o, 'iss) SafeParseResult) effect) js" where
  "parseAsync V schema input config =
     js_return (Effect_tryPromise
       (v_safeParseAsync V schema input config)
       (\<lambda>cause. new_ValiError (if v_isValiError V cause then cause else cause)))"

definition safeParse ::
  "('w, 's, 'i, 'c, 'o, 'iss, 'x) validator \<Rightarrow> 's \<Rightarrow> 'i \<Rightarrow> 'c option
     \<Rightarrow> ('w, 'x, ('w, 'x, 'iss list option, 'o) effect) js" where
  "safeParse V schema input config =
     js_return (Effect_suspend
       (js_bind (v_safeParse V schema input config) (\<lambda>result.
          js_return (if success result
                     then Effect_succeed (output result)
                     else Effect_fail (issues result)))))"

definition safeParseAsync ::
  "('w, 's, 'i, 'c, 'o, 'iss, 'x) validator \<Rightarrow> 's \<Rightarrow> 'i \<Rightarrow> 'c option
     \<Rightarrow> ('w, 'x, ('w, 'x, 'iss list option, 'o) effect) js" where
  "safeParseAsync V schema input config =
     js_return (Effect_flatMap
       (Effect_promise (v_safeParseAsync V schema input config))
       (\<lambda>result. if success result
                 then Effect_succeed (output result)
                 else Effect_fail (issues result)))"

section \<open>The second module: \<^verbatim>\<open>./parse.ts\<close>, as \<^verbatim>\<open>src/parse.test.ts\<close> carries it\<close>

text \<open>
  The module the tests import defines the same four functions. Three bodies are the
  bodies of \<^verbatim>\<open>src/index.ts\<close>; \<^verbatim>\<open>parseAsync\<close> calls \<^verbatim>\<open>v.parseAsync\<close> here:
  \<^verbatim>\<open>
  parseAsync:     return Effect.tryPromise({
                    try: () => v.parseAsync(schema, input, config),
                    catch: (cause) =>
                      new ValiError({ cause: v.isValiError(cause) ? cause : (cause as any) }),
                  });
  \<close>
  Its documentation says that it wraps the Validator's \<^verbatim>\<open>parseAsync\<close> and fails with a
  \<^verbatim>\<open>ValiError\<close> when validation fails, and the test \<^verbatim>\<open>parseAsync - failure\<close> expects that.
\<close>

definition parse_ts_parse ::
  "('w, 's, 'i, 'c, 'o, 'iss, 'x) validator \<Rightarrow> 's \<Rightarrow> 'i \<Rightarrow> 'c option
     \<Rightarrow> ('w, 'x, ('w, 'x, 'x ValiError, 'o) effect) js" where
  "parse_ts_parse V schema input config =
     js_return (Effect_try
       (v_parse V schema input config)
       (\<lambda>cause. new_ValiError (if v_isValiError V cause then cause else cause)))"

definition parse_ts_parseAsync ::
  "('w, 's, 'i, 'c, 'o, 'iss, 'x) validator \<Rightarrow> 's \<Rightarrow> 'i \<Rightarrow> 'c option
     \<Rightarrow> ('w, 'x, ('w, 'x, 'x ValiError, 'o) effect) js" where
  "parse_ts_parseAsync V schema input config =
     js_return (Effect_tryPromise
       (v_parseAsync V schema input config)
       (\<lambda>cause. new_ValiError (if v_isValiError V cause then cause else cause)))"

definition parse_ts_safeParse ::
  "('w, 's, 'i, 'c, 'o, 'iss, 'x) validator \<Rightarrow> 's \<Rightarrow> 'i \<Rightarrow> 'c option
     \<Rightarrow> ('w, 'x, ('w, 'x, 'iss list option, 'o) effect) js" where
  "parse_ts_safeParse V schema input config =
     js_return (Effect_suspend
       (js_bind (v_safeParse V schema input config) (\<lambda>result.
          js_return (if success result
                     then Effect_succeed (output result)
                     else Effect_fail (issues result)))))"

definition parse_ts_safeParseAsync ::
  "('w, 's, 'i, 'c, 'o, 'iss, 'x) validator \<Rightarrow> 's \<Rightarrow> 'i \<Rightarrow> 'c option
     \<Rightarrow> ('w, 'x, ('w, 'x, 'iss list option, 'o) effect) js" where
  "parse_ts_safeParseAsync V schema input config =
     js_return (Effect_flatMap
       (Effect_promise (v_safeParseAsync V schema input config))
       (\<lambda>result. if success result
                 then Effect_succeed (output result)
                 else Effect_fail (issues result)))"

section \<open>Observing the Validator\<close>

text \<open>
  To say when the Validator is invoked, every call of one of its four parse entry points
  is recorded: \<open>traced V\<close> is \<open>V\<close> in a world that also carries the list of the calls
  made so far.
\<close>

datatype ('s, 'i, 'c) validator_call =
    Call_parse 's 'i "'c option"
  | Call_parseAsync 's 'i "'c option"
  | Call_safeParse 's 'i "'c option"
  | Call_safeParseAsync 's 'i "'c option"

definition recorded ::
  "('s, 'i, 'c) validator_call \<Rightarrow> ('w, 'x, 'a) js
     \<Rightarrow> (('s, 'i, 'c) validator_call list \<times> 'w, 'x, 'a) js" where
  "recorded call m = (\<lambda>(calls, w). case m w of (r, w') \<Rightarrow> (r, (calls @ [call], w')))"

definition traced ::
  "('w, 's, 'i, 'c, 'o, 'iss, 'x) validator
     \<Rightarrow> (('s, 'i, 'c) validator_call list \<times> 'w, 's, 'i, 'c, 'o, 'iss, 'x) validator" where
  "traced V = \<lparr>
     v_parse = (\<lambda>s i c. recorded (Call_parse s i c) (v_parse V s i c)),
     v_parseAsync = (\<lambda>s i c. recorded (Call_parseAsync s i c) (v_parseAsync V s i c)),
     v_safeParse = (\<lambda>s i c. recorded (Call_safeParse s i c) (v_safeParse V s i c)),
     v_safeParseAsync =
       (\<lambda>s i c. recorded (Call_safeParseAsync s i c) (v_safeParseAsync V s i c)),
     v_isValiError = v_isValiError V\<rparr>"

definition calls_after :: "('a, 'e, 'x) exit \<times> ('k list \<times> 'w) \<Rightarrow> 'k list" where
  "calls_after r = fst (snd r)"

section \<open>The Validator's contract\<close>

text \<open>
  What the adapter takes on trust from the Validator. A failing result carries at least
  one issue:
\<close>

definition nonempty_issues :: "'iss list option \<Rightarrow> bool" where
  "nonempty_issues f = (case f of Some is \<Rightarrow> is \<noteq> [] | None \<Rightarrow> False)"

definition issues_contract :: "('o, 'iss) SafeParseResult \<Rightarrow> bool" where
  "issues_contract result = (if success result then True else nonempty_issues (issues result))"

text \<open>
  A schema with no asynchronous-only logic: the asynchronous entry points settle with
  what the synchronous ones return or throw.
\<close>

definition settle :: "('x + 'a) \<times> 'w \<Rightarrow> ('x + ('x, 'a) promise) \<times> 'w" where
  "settle r = (case r of
       (Inr a, w') \<Rightarrow> (Inr (Resolved a), w')
     | (Inl thrown, w') \<Rightarrow> (Inr (Rejected thrown), w'))"

definition synchronous_schema ::
  "('w, 's, 'i, 'c, 'o, 'iss, 'x) validator \<Rightarrow> 's \<Rightarrow> bool" where
  "synchronous_schema V schema = (\<forall>input config w.
       v_parseAsync V schema input config w = settle (v_parse V schema input config w) \<and>
       v_safeParseAsync V schema input config w = settle (v_safeParse V schema input config w))"

section \<open>The Validator on the schema of \<^verbatim>\<open>src/parse.test.ts\<close>\<close>

text \<open>
  A concrete Validator to evaluate the adapter on, defined on the two inputs the tests
  give it: the string \<^verbatim>\<open>"100"\<close> and the number \<^verbatim>\<open>100\<close>. \<open>Schema\<close> and
  \<open>SchemaAsync\<close> stand for the two schemas of the tests (a non-empty decimal string,
  turned into a number between 0 and 100); the Validator answers what the tests record:
  the output \<^verbatim>\<open>100\<close> for the string, and for the number the one issue of the tests.
  \<open>CrashingCheck\<close> is a schema whose custom check throws a value that is not the
  Validator's own error.
\<close>

datatype js_value = Str string | Num nat

datatype test_input = The_string_100 | The_number_100

record issue =
  issue_kind :: string
  issue_type :: string
  issue_input :: js_value
  issue_expected :: string
  issue_received :: string
  issue_message :: string

datatype thrown = ValibotError "issue list" | Crash string

datatype test_schema = Schema | SchemaAsync | CrashingCheck

definition type_issue :: "js_value \<Rightarrow> string \<Rightarrow> issue" where
  "type_issue v shown = \<lparr>issue_kind = ''schema'', issue_type = ''string'', issue_input = v,
     issue_expected = ''string'', issue_received = shown,
     issue_message = ''Invalid type: Expected string but received '' @ shown\<rparr>"

definition input_value :: "test_input \<Rightarrow> js_value" where
  "input_value v = (case v of The_string_100 \<Rightarrow> Str ''100'' | The_number_100 \<Rightarrow> Num 100)"

text \<open>
  The validation of the tests' schema: the string passes every step and is turned into
  the number; the number fails the first step, the string schema, which leaves the value
  as it is and reports \<^verbatim>\<open>received: "100"\<close>.
\<close>

definition test_validation ::
  "test_schema \<Rightarrow> test_input \<Rightarrow> unit option \<Rightarrow> (unit, thrown, (js_value, issue) dataset) js" where
  "test_validation s v c = (case s of
       CrashingCheck \<Rightarrow> js_throw (Crash ''boom'')
     | _ \<Rightarrow> (case v of
           The_string_100 \<Rightarrow> js_return \<lparr>dataset_value = Num 100, dataset_issues = None\<rparr>
         | The_number_100 \<Rightarrow> js_return \<lparr>dataset_value = input_value v,
             dataset_issues = Some [type_issue (input_value v) ''100'']\<rparr>))"

definition test_validator ::
  "(unit, test_schema, test_input, unit, js_value, issue, thrown) validator" where
  "test_validator = \<lparr>
     v_parse = (\<lambda>s v c. throwing_form ValibotError (test_validation s v c)),
     v_parseAsync = (\<lambda>s v c w. settle (throwing_form ValibotError (test_validation s v c) w)),
     v_safeParse = (\<lambda>s v c. safe_form (test_validation s v c)),
     v_safeParseAsync = (\<lambda>s v c w. settle (safe_form (test_validation s v c) w)),
     v_isValiError = (\<lambda>x. case x of ValibotError _ \<Rightarrow> True | Crash _ \<Rightarrow> False)\<rparr>"

section \<open>Unfolding the runtime and the test Validator\<close>

lemmas adapter_defs =
  js_return_def js_bind_def Effect_succeed_def Effect_fail_def Effect_try_def
  Effect_tryPromise_def Effect_promise_def Effect_suspend_def Effect_flatMap_def
  new_ValiError_def

lemmas fixture_defs =
  test_validator_def test_validation_def throwing_form_def safe_form_def settle_def
  js_throw_def js_return_def js_bind_def input_value_def type_issue_def

lemma run_recorded:
  "recorded call m (calls, w) = (fst (m w), (calls @ [call], snd (m w)))"
  by (simp add: recorded_def split: prod.splits)

section \<open>What executing each computation does\<close>

text \<open>
  The hypothesis \<open>parse V schema input config w0 = (Inr eff, w1)\<close> reads: the call of
  the adapter function returned the computation value \<open>eff\<close>. The conclusion is about
  executing \<open>eff\<close> in any world \<open>w\<close>, possibly much later.
\<close>

text \<open>
  C3: executing the computation returned by \<^verbatim>\<open>parse\<close> calls the Validator's throwing
  parse. When it returns a value the computation succeeds with that value; when it throws,
  the computation fails with a \<^verbatim>\<open>ValiError\<close> object built at that moment, whose tag is
  \<^verbatim>\<open>"ValiError"\<close> and whose cause is exactly the thrown value.
\<close>

theorem parse_runs_throwing_parse:
  assumes "parse V schema input config w0 = (Inr eff, w1)"
  shows "run eff w = (case v_parse V schema input config w of
       (Inr out, w') \<Rightarrow> (Success out, w')
     | (Inl thrown, w') \<Rightarrow> (Failure \<lparr>tag = ''ValiError'', cause = thrown\<rparr>, w'))"
  using assms by (auto simp: parse_def adapter_defs split: prod.splits sum.splits)

theorem parse_runs_throwing_parse_witness:
  "(case parse test_validator Schema The_string_100 None () of
      (Inr eff, _) \<Rightarrow> run eff () = (Success (Num 100), ())
    | (Inl _, _) \<Rightarrow> False) \<and>
   (case parse test_validator Schema The_number_100 None () of
      (Inr eff, _) \<Rightarrow>
        run eff () = (Failure \<lparr>tag = ''ValiError'',
          cause = ValibotError [type_issue (Num 100) ''100'']\<rparr>, ())
    | (Inl _, _) \<Rightarrow> False)"
proof -
  obtain ok where ok: "parse test_validator Schema The_string_100 None () = (Inr ok, ())"
    by (simp add: parse_def js_return_def)
  obtain bad where bad: "parse test_validator Schema The_number_100 None () = (Inr bad, ())"
    by (simp add: parse_def js_return_def)
  have "run ok () = (Success (Num 100), ())"
    using parse_runs_throwing_parse [OF ok, of "()"] by (simp add: fixture_defs)
  moreover have "run bad () = (Failure \<lparr>tag = ''ValiError'',
      cause = ValibotError [type_issue (Num 100) ''100'']\<rparr>, ())"
    using parse_runs_throwing_parse [OF bad, of "()"]
    by (simp add: fixture_defs)
  ultimately show ?thesis by (simp add: ok bad)
qed

text \<open>
  C4: executing the computation returned by \<^verbatim>\<open>safeParse\<close> calls the Validator's
  non-throwing parse. It succeeds with the result's output when the success flag is set,
  and otherwise fails with the result's \<^verbatim>\<open>issues\<close> itself, with nothing wrapped around it.
  (Should the non-throwing parse throw after all, the thrown value is a defect.)
\<close>

theorem safeParse_runs_safe_parse:
  assumes "safeParse V schema input config w0 = (Inr eff, w1)"
  shows "run eff w = (case v_safeParse V schema input config w of
       (Inr result, w') \<Rightarrow>
         if success result then (Success (output result), w')
         else (Failure (issues result), w')
     | (Inl thrown, w') \<Rightarrow> (Defect thrown, w'))"
  using assms by (auto simp: safeParse_def adapter_defs split: prod.splits sum.splits)

theorem safeParse_runs_safe_parse_witness:
  "(case safeParse test_validator Schema The_string_100 None () of
      (Inr eff, _) \<Rightarrow> run eff () = (Success (Num 100), ())
    | (Inl _, _) \<Rightarrow> False) \<and>
   (case safeParse test_validator Schema The_number_100 None () of
      (Inr eff, _) \<Rightarrow> run eff () = (Failure (Some [type_issue (Num 100) ''100'']), ())
    | (Inl _, _) \<Rightarrow> False)"
proof -
  obtain ok where ok: "safeParse test_validator Schema The_string_100 None () = (Inr ok, ())"
    by (simp add: safeParse_def js_return_def)
  obtain bad where bad: "safeParse test_validator Schema The_number_100 None () = (Inr bad, ())"
    by (simp add: safeParse_def js_return_def)
  have "run ok () = (Success (Num 100), ())"
    using safeParse_runs_safe_parse [OF ok, of "()"] by (simp add: fixture_defs)
  moreover have "run bad () = (Failure (Some [type_issue (Num 100) ''100'']), ())"
    using safeParse_runs_safe_parse [OF bad, of "()"]
    by (simp add: fixture_defs)
  ultimately show ?thesis by (simp add: ok bad)
qed

text \<open>
  What \<^verbatim>\<open>parseAsync\<close> of \<^verbatim>\<open>src/index.ts\<close> awaits is the promise of the Validator's
  \<^emph>\<open>non-throwing\<close> asynchronous parse, so a resolved promise always is a success of the
  computation, with the whole result object as its value. \<^verbatim>\<open>parseAsync\<close> of the second
  module awaits the throwing asynchronous parse.
\<close>

lemma parseAsync_awaits_safeParseAsync:
  assumes "parseAsync V schema input config w0 = (Inr eff, w1)"
  shows "run eff w = (case v_safeParseAsync V schema input config w of
       (Inr (Resolved result), w') \<Rightarrow> (Success result, w')
     | (Inr (Rejected reason), w') \<Rightarrow> (Failure \<lparr>tag = ''ValiError'', cause = reason\<rparr>, w')
     | (Inr Pending, w') \<Rightarrow> (Never, w')
     | (Inl thrown, w') \<Rightarrow> (Failure \<lparr>tag = ''ValiError'', cause = thrown\<rparr>, w'))"
  using assms
  by (auto simp: parseAsync_def adapter_defs split: prod.splits sum.splits promise.splits)

lemma parse_ts_parseAsync_awaits_parseAsync:
  assumes "parse_ts_parseAsync V schema input config w0 = (Inr eff, w1)"
  shows "run eff w = (case v_parseAsync V schema input config w of
       (Inr (Resolved out), w') \<Rightarrow> (Success out, w')
     | (Inr (Rejected reason), w') \<Rightarrow> (Failure \<lparr>tag = ''ValiError'', cause = reason\<rparr>, w')
     | (Inr Pending, w') \<Rightarrow> (Never, w')
     | (Inl thrown, w') \<Rightarrow> (Failure \<lparr>tag = ''ValiError'', cause = thrown\<rparr>, w'))"
  using assms
  by (auto simp: parse_ts_parseAsync_def adapter_defs split: prod.splits sum.splits promise.splits)

text \<open>
  C1, at a failing input: the tests' schema and the input \<^verbatim>\<open>100\<close>. The promise of the
  Validator's asynchronous throwing parse rejects with the Validator's error, and the claim
  asks for a computation that fails with a \<^verbatim>\<open>ValiError\<close> around it; the computation of
  \<^verbatim>\<open>src/index.ts\<close> succeeds, with the result object of the non-throwing parse.
\<close>

theorem parseAsync_succeeds_where_parseAsync_rejects:
  "v_parseAsync test_validator Schema The_number_100 None () =
     (Inr (Rejected (ValibotError [type_issue (Num 100) ''100''])), ()) \<and>
   (case parseAsync test_validator Schema The_number_100 None () of
      (Inr eff, _) \<Rightarrow>
        run eff () = (Success \<lparr>success = False, output = Num 100,
          issues = Some [type_issue (Num 100) ''100'']\<rparr>, ())
    | (Inl _, _) \<Rightarrow> False)"
  by (simp add: parseAsync_def adapter_defs fixture_defs)

section \<open>Synchronous and asynchronous variants\<close>

text \<open>
  On a schema with no asynchronous-only logic the computation of \<^verbatim>\<open>safeParseAsync\<close>
  gives what the computation of \<^verbatim>\<open>safeParse\<close> gives.
\<close>

lemma safeParseAsync_matches_safeParse:
  assumes "synchronous_schema V schema"
    and "safeParse V schema input config w0 = (Inr eff, w1)"
    and "safeParseAsync V schema input config w2 = (Inr effA, w3)"
  shows "run effA w = run eff w"
proof -
  have "v_safeParseAsync V schema input config w = settle (v_safeParse V schema input config w)"
    using assms(1) by (simp add: synchronous_schema_def)
  then show ?thesis
    using assms(2,3)
    by (auto simp: safeParse_def safeParseAsync_def settle_def adapter_defs
        split: prod.splits sum.splits)
qed

lemma test_schema_is_synchronous: "synchronous_schema test_validator Schema"
  by (simp add: synchronous_schema_def test_validator_def)

text \<open>
  C2, at a failing input: the tests' synchronous schema and the input \<^verbatim>\<open>"100"\<close>. The
  claim asks \<^verbatim>\<open>parseAsync\<close> for the value \<^verbatim>\<open>parse\<close> gives, the number 100; the
  computation of \<^verbatim>\<open>src/index.ts\<close> succeeds with a result object that holds it.
\<close>

theorem parseAsync_differs_from_parse_on_synchronous_schema:
  "synchronous_schema test_validator Schema \<and>
   (case parse test_validator Schema The_string_100 None () of
      (Inr eff, _) \<Rightarrow> run eff () = (Success (Num 100), ())
    | (Inl _, _) \<Rightarrow> False) \<and>
   (case parseAsync test_validator Schema The_string_100 None () of
      (Inr eff, _) \<Rightarrow>
        run eff () = (Success \<lparr>success = True, output = Num 100, issues = None\<rparr>, ())
    | (Inl _, _) \<Rightarrow> False)"
  by (simp add: test_schema_is_synchronous)
    (simp add: parse_def parseAsync_def adapter_defs fixture_defs)

section \<open>Construction and execution\<close>

text \<open>
  C5: calling any of the four functions returns a computation value (it does not throw) and
  leaves the world as it was, the record of the Validator's calls included; the Validator
  is called, once, each time the returned computation is executed.
\<close>

theorem adapters_construct_without_validating:
  "(\<exists>eff. parse (traced V) schema input config (calls, w) = (Inr eff, (calls, w)) \<and>
      (\<forall>later w'. calls_after (run eff (later, w')) = later @ [Call_parse schema input config]))
   \<and> (\<exists>eff. parseAsync (traced V) schema input config (calls, w) = (Inr eff, (calls, w)) \<and>
      (\<forall>later w'. calls_after (run eff (later, w')) =
         later @ [Call_safeParseAsync schema input config]))
   \<and> (\<exists>eff. safeParse (traced V) schema input config (calls, w) = (Inr eff, (calls, w)) \<and>
      (\<forall>later w'. calls_after (run eff (later, w')) =
         later @ [Call_safeParse schema input config]))
   \<and> (\<exists>eff. safeParseAsync (traced V) schema input config (calls, w) = (Inr eff, (calls, w)) \<and>
      (\<forall>later w'. calls_after (run eff (later, w')) =
         later @ [Call_safeParseAsync schema input config]))"
proof (intro conjI)
  show "\<exists>eff. parse (traced V) schema input config (calls, w) = (Inr eff, (calls, w)) \<and>
      (\<forall>later w'. calls_after (run eff (later, w')) = later @ [Call_parse schema input config])"
    by (auto simp: parse_def traced_def calls_after_def run_recorded adapter_defs
        split: prod.splits sum.splits)
  show "\<exists>eff. parseAsync (traced V) schema input config (calls, w) = (Inr eff, (calls, w)) \<and>
      (\<forall>later w'. calls_after (run eff (later, w')) =
         later @ [Call_safeParseAsync schema input config])"
    by (auto simp: parseAsync_def traced_def calls_after_def run_recorded adapter_defs
        split: prod.splits sum.splits promise.splits)
  show "\<exists>eff. safeParse (traced V) schema input config (calls, w) = (Inr eff, (calls, w)) \<and>
      (\<forall>later w'. calls_after (run eff (later, w')) =
         later @ [Call_safeParse schema input config])"
    by (auto simp: safeParse_def traced_def calls_after_def run_recorded adapter_defs
        split: prod.splits sum.splits)
  show "\<exists>eff. safeParseAsync (traced V) schema input config (calls, w) = (Inr eff, (calls, w)) \<and>
      (\<forall>later w'. calls_after (run eff (later, w')) =
         later @ [Call_safeParseAsync schema input config])"
    by (auto simp: safeParseAsync_def traced_def calls_after_def run_recorded adapter_defs
        split: prod.splits sum.splits promise.splits exit.splits)
qed

section \<open>Thrown values and failures\<close>

text \<open>
  C6: a value thrown while a \<^verbatim>\<open>parse\<close> or \<^verbatim>\<open>parseAsync\<close> computation runs (thrown by
  the Validator's call, or the reason its promise rejects with) that the Validator's
  \<^verbatim>\<open>isValiError\<close> does not recognise still makes the computation fail with a
  \<^verbatim>\<open>ValiError\<close> whose cause is that very value.
\<close>

theorem unrecognized_thrown_value_is_wrapped_raw:
  assumes "\<not> v_isValiError V thrown"
    and "parse V schema input config w0 = (Inr eff, w1)"
    and "parseAsync V schema input config w2 = (Inr effA, w3)"
  shows "(v_parse V schema input config w = (Inl thrown, w') \<longrightarrow>
            run eff w = (Failure \<lparr>tag = ''ValiError'', cause = thrown\<rparr>, w')) \<and>
         (v_safeParseAsync V schema input config w = (Inr (Rejected thrown), w') \<or>
          v_safeParseAsync V schema input config w = (Inl thrown, w') \<longrightarrow>
            run effA w = (Failure \<lparr>tag = ''ValiError'', cause = thrown\<rparr>, w'))"
  using assms by (auto simp: parse_def parseAsync_def adapter_defs)

theorem unrecognized_thrown_value_is_wrapped_raw_witness:
  "\<not> v_isValiError test_validator (Crash ''boom'') \<and>
   (case parse test_validator CrashingCheck The_string_100 None () of
      (Inr eff, _) \<Rightarrow>
        run eff () = (Failure \<lparr>tag = ''ValiError'', cause = Crash ''boom''\<rparr>, ())
    | (Inl _, _) \<Rightarrow> False) \<and>
   (case parseAsync test_validator CrashingCheck The_string_100 None () of
      (Inr eff, _) \<Rightarrow>
        run eff () = (Failure \<lparr>tag = ''ValiError'', cause = Crash ''boom''\<rparr>, ())
    | (Inl _, _) \<Rightarrow> False)"
proof -
  have unknown: "\<not> v_isValiError test_validator (Crash ''boom'')"
    by (simp add: test_validator_def)
  obtain p where p: "parse test_validator CrashingCheck The_string_100 None () = (Inr p, ())"
    by (simp add: parse_def js_return_def)
  obtain a where a: "parseAsync test_validator CrashingCheck The_string_100 None () = (Inr a, ())"
    by (simp add: parseAsync_def js_return_def)
  have "run p () = (Failure \<lparr>tag = ''ValiError'', cause = Crash ''boom''\<rparr>, ()) \<and>
        run a () = (Failure \<lparr>tag = ''ValiError'', cause = Crash ''boom''\<rparr>, ())"
    using unrecognized_thrown_value_is_wrapped_raw [OF unknown p a, of "()" "()"]
    by (simp add: fixture_defs)
  then show ?thesis using unknown by (simp add: p a)
qed

text \<open>
  C7: where the Validator's non-throwing parse succeeds, the computations of \<^verbatim>\<open>parse\<close>
  and of \<^verbatim>\<open>safeParse\<close> both succeed, with the same value: the output of that result.
  The Validator is any one whose synchronous entry points are the throwing and the
  non-throwing form of one validation.
\<close>

theorem parse_and_safeParse_agree_on_success:
  assumes "parse (with_synchronous_forms new_error validation V) schema input config w0 =
      (Inr effP, w1)"
    and "safeParse (with_synchronous_forms new_error validation V) schema input config w2 =
      (Inr effS, w3)"
    and "v_safeParse (with_synchronous_forms new_error validation V) schema input config w =
      (Inr result, w')"
    and "success result"
  shows "run effP w = (Success (output result), w') \<and>
         run effS w = (Success (output result), w')"
proof -
  obtain r v where validated: "validation schema input config w = (r, v)"
    by (cases "validation schema input config w")
  from assms(3) validated obtain d where
    d: "r = Inr d" "v = w'"
      "result = \<lparr>success = (dataset_issues d = None), output = dataset_value d,
         issues = dataset_issues d\<rparr>"
    by (cases r) (auto simp: with_synchronous_forms_def safe_form_def js_bind_def js_return_def)
  from d(3) assms(4) have clean: "dataset_issues d = None" "output result = dataset_value d"
    by simp_all
  have "run effP w = (Success (output result), w')"
    using assms(1) validated d(1,2) clean
    by (auto simp: parse_def with_synchronous_forms_def throwing_form_def adapter_defs)
  moreover have "run effS w = (Success (output result), w')"
    using assms(2) validated d(1,2) clean
    by (auto simp: safeParse_def with_synchronous_forms_def safe_form_def adapter_defs)
  ultimately show ?thesis by simp
qed

theorem parse_and_safeParse_agree_on_success_witness:
  "v_safeParse (with_synchronous_forms ValibotError test_validation test_validator)
     Schema The_string_100 None () =
     (Inr \<lparr>success = True, output = Num 100, issues = None\<rparr>, ()) \<and>
   (case parse (with_synchronous_forms ValibotError test_validation test_validator)
       Schema The_string_100 None () of
      (Inr eff, _) \<Rightarrow> run eff () = (Success (Num 100), ())
    | (Inl _, _) \<Rightarrow> False) \<and>
   (case safeParse (with_synchronous_forms ValibotError test_validation test_validator)
       Schema The_string_100 None () of
      (Inr eff, _) \<Rightarrow> run eff () = (Success (Num 100), ())
    | (Inl _, _) \<Rightarrow> False)"
proof -
  let ?V = "with_synchronous_forms ValibotError test_validation test_validator"
  have r: "v_safeParse ?V Schema The_string_100 None () =
     (Inr \<lparr>success = True, output = Num 100, issues = None\<rparr>, ())"
    by (simp add: with_synchronous_forms_def fixture_defs)
  have ok: "success \<lparr>success = True, output = Num 100, issues = None\<rparr>"
    by simp
  obtain p where p: "parse ?V Schema The_string_100 None () = (Inr p, ())"
    by (simp add: parse_def js_return_def)
  obtain q where q: "safeParse ?V Schema The_string_100 None () = (Inr q, ())"
    by (simp add: safeParse_def js_return_def)
  have "run p () = (Success (Num 100), ()) \<and> run q () = (Success (Num 100), ())"
    using parse_and_safeParse_agree_on_success [OF p q r ok] by simp
  then show ?thesis using r by (simp add: p q)
qed

text \<open>
  C8: when the computation of \<^verbatim>\<open>safeParse\<close> or of \<^verbatim>\<open>safeParseAsync\<close> fails, its
  failure is a sequence of at least one issue, provided the Validator's result carries a
  non-empty issue sequence whenever its success flag is unset.
\<close>

theorem safe_failure_is_nonempty:
  "(safeParse V schema input config w0 = (Inr eff, w1) \<and>
    (case v_safeParse V schema input config w of
       (Inr result, _) \<Rightarrow> issues_contract result
     | (Inl _, _) \<Rightarrow> True) \<and>
    run eff w = (Failure f, w') \<longrightarrow> nonempty_issues f) \<and>
   (safeParseAsync V schema input config w0 = (Inr effA, w1) \<and>
    (case v_safeParseAsync V schema input config w of
       (Inr (Resolved result), _) \<Rightarrow> issues_contract result
     | (Inr _, _) \<Rightarrow> True
     | (Inl _, _) \<Rightarrow> True) \<and>
    run effA w = (Failure g, w') \<longrightarrow> nonempty_issues g)"
  by (auto simp: safeParse_def safeParseAsync_def issues_contract_def adapter_defs
      split: prod.splits sum.splits promise.splits if_splits)

theorem safe_failure_is_nonempty_witness:
  "issues_contract \<lparr>success = False, output = Num 100,
     issues = Some [type_issue (Num 100) ''100'']\<rparr> \<and>
   (case safeParse test_validator Schema The_number_100 None () of
      (Inr eff, _) \<Rightarrow>
        run eff () = (Failure (Some [type_issue (Num 100) ''100'']), ()) \<and>
        nonempty_issues (Some [type_issue (Num 100) ''100''])
    | (Inl _, _) \<Rightarrow> False) \<and>
   (case safeParseAsync test_validator SchemaAsync The_number_100 None () of
      (Inr eff, _) \<Rightarrow>
        run eff () = (Failure (Some [type_issue (Num 100) ''100'']), ()) \<and>
        nonempty_issues (Some [type_issue (Num 100) ''100''])
    | (Inl _, _) \<Rightarrow> False)"
proof -
  let ?found = "Some [type_issue (Num 100) ''100'']"
  have contract: "issues_contract \<lparr>success = False, output = Num 100,
     issues = Some [type_issue (Num 100) ''100'']\<rparr>"
    by (simp add: issues_contract_def nonempty_issues_def)
  have sync: "(case v_safeParse test_validator Schema The_number_100 None () of
       (Inr result, _) \<Rightarrow> issues_contract result
     | (Inl _, _) \<Rightarrow> True)"
    using contract by (simp add: fixture_defs)
  have async: "(case v_safeParseAsync test_validator SchemaAsync The_number_100 None () of
       (Inr (Resolved result), _) \<Rightarrow> issues_contract result
     | (Inr _, _) \<Rightarrow> True
     | (Inl _, _) \<Rightarrow> True)"
    using contract by (simp add: fixture_defs)
  obtain s where s: "safeParse test_validator Schema The_number_100 None () = (Inr s, ())"
    by (simp add: safeParse_def js_return_def)
  obtain a where a: "safeParseAsync test_validator SchemaAsync The_number_100 None () = (Inr a, ())"
    by (simp add: safeParseAsync_def js_return_def)
  have run_s: "run s () = (Failure ?found, ())"
    by (simp add: s [unfolded safeParse_def js_return_def, simplified, symmetric]
        adapter_defs fixture_defs)
  have run_a: "run a () = (Failure ?found, ())"
    by (simp add: a [unfolded safeParseAsync_def js_return_def, simplified, symmetric]
        adapter_defs fixture_defs)
  have "nonempty_issues ?found"
    using safe_failure_is_nonempty
      [where V = test_validator and schema = Schema and input = The_number_100 and config = None
        and ?w0.0 = "()" and eff = s and ?w1.0 = "()" and w = "()" and f = ?found and w' = "()"]
      s sync run_s
    by simp
  moreover have "nonempty_issues ?found"
    using safe_failure_is_nonempty
      [where V = test_validator and schema = SchemaAsync and input = The_number_100
        and config = None and ?w0.0 = "()" and effA = a and ?w1.0 = "()" and w = "()"
        and g = ?found and w' = "()"]
      a async run_a
    by simp
  ultimately show ?thesis using contract run_s run_a by (simp add: s a)
qed

text \<open>
  C10: when the promise of the Validator's non-throwing asynchronous parse rejects, the
  computation of \<^verbatim>\<open>safeParseAsync\<close> does not fail in its error channel: the reason
  is a defect.
\<close>

theorem safeParseAsync_rejection_is_defect:
  assumes "safeParseAsync V schema input config w0 = (Inr eff, w1)"
    and "v_safeParseAsync V schema input config w = (Inr (Rejected reason), w')"
  shows "run eff w = (Defect reason, w') \<and> (\<forall>f. fst (run eff w) \<noteq> Failure f)"
  using assms by (auto simp: safeParseAsync_def adapter_defs)

theorem safeParseAsync_rejection_is_defect_witness:
  "v_safeParseAsync test_validator CrashingCheck The_string_100 None () =
     (Inr (Rejected (Crash ''boom'')), ()) \<and>
   (case safeParseAsync test_validator CrashingCheck The_string_100 None () of
      (Inr eff, _) \<Rightarrow> run eff () = (Defect (Crash ''boom''), ())
    | (Inl _, _) \<Rightarrow> False)"
proof -
  have r: "v_safeParseAsync test_validator CrashingCheck The_string_100 None () =
     (Inr (Rejected (Crash ''boom'')), ())"
    by (simp add: fixture_defs)
  obtain a where
    a: "safeParseAsync test_validator CrashingCheck The_string_100 None () = (Inr a, ())"
    by (simp add: safeParseAsync_def js_return_def)
  have "run a () = (Defect (Crash ''boom''), ())"
    using safeParseAsync_rejection_is_defect [OF a r] by simp
  then show ?thesis using r by (simp add: a)
qed

section \<open>The two modules\<close>

text \<open>
  Three of the four functions are the same function in both modules.
\<close>

lemma parse_ts_same_but_parseAsync:
  "parse_ts_parse = parse \<and> parse_ts_safeParse = safeParse \<and>
   parse_ts_safeParseAsync = safeParseAsync"
  by (intro conjI ext)
    (simp_all add: parse_ts_parse_def parse_def parse_ts_safeParse_def safeParse_def
      parse_ts_safeParseAsync_def safeParseAsync_def)

text \<open>
  C9, at a failing input: the tests' schema and the input \<^verbatim>\<open>100\<close>. \<^verbatim>\<open>parseAsync\<close> of
  \<^verbatim>\<open>src/index.ts\<close> succeeds with the result object; \<^verbatim>\<open>parseAsync\<close> of the second
  module fails with a \<^verbatim>\<open>ValiError\<close>, as its test expects.
\<close>

theorem index_parseAsync_differs_from_parse_ts_parseAsync:
  "(case parseAsync test_validator Schema The_number_100 None () of
      (Inr eff, _) \<Rightarrow>
        run eff () = (Success \<lparr>success = False, output = Num 100,
          issues = Some [type_issue (Num 100) ''100'']\<rparr>, ())
    | (Inl _, _) \<Rightarrow> False) \<and>
   (case parse_ts_parseAsync test_validator Schema The_number_100 None () of
      (Inr eff, _) \<Rightarrow>
        run eff () = (Failure \<lparr>tag = ''ValiError'',
          cause = ValibotError [type_issue (Num 100) ''100'']\<rparr>, ())
    | (Inl _, _) \<Rightarrow> False)"
  by (simp add: parseAsync_def parse_ts_parseAsync_def adapter_defs fixture_defs)

end
